theory Spec2Isabelle
  imports Main "HOL-Library.Multiset" "HOL-Library.Sublist"
begin

section \<open>Wire types and per-proxy state\<close>

text \<open>
  The generic xDS server of \<^verbatim>\<open>security/pkg/nodeagent/sds/xds.go\<close> and the push-request
  algebra of \<^verbatim>\<open>pilot/pkg/model/push_request.go\<close>, as HOL functions. Pointers that may be
  nil are options; the proxy's watched-resource table, a Go map from type-URL to a
  pointer, is a partial map; every mutation returns the updated proxy. Locks guard
  accesses of a single owner task and have no counterpart here; log calls are dropped.
\<close>

text \<open>
  The type-URL constants \<^verbatim>\<open>v3.SecretType\<close>, \<^verbatim>\<open>v3.HealthInfoType\<close> and \<^verbatim>\<open>v3.DebugType\<close>
  are declared in package \<^verbatim>\<open>pilot/pkg/xds/v3\<close>; the functions below take them as a
  parameter.
\<close>

record v3_types =
  SecretType :: string
  HealthInfoType :: string
  DebugType :: string

datatype code =
  OK | Canceled | Unknown | InvalidArgument | DeadlineExceeded | Unimplemented | Unavailable

text \<open>
  A Go \<^verbatim>\<open>error\<close>: either one made from a gRPC status (\<^verbatim>\<open>status.New(c, msg).Err()\<close>) or a
  plain one (\<^verbatim>\<open>fmt.Errorf(msg)\<close>). \<open>status_Code\<close> is \<^verbatim>\<open>status.Convert(err).Code()\<close>,
  which gives \<^verbatim>\<open>codes.Unknown\<close> for an error that carries no status.
\<close>

datatype error = StatusError code string | PlainError string

fun status_Code :: "error \<Rightarrow> code" where
  "status_Code (StatusError c msg) = c"
| "status_Code (PlainError msg) = Unknown"

fun error_Message :: "error \<Rightarrow> string" where
  "error_Message (StatusError c msg) = msg"
| "error_Message (PlainError msg) = msg"

record Node =
  Id :: string
  Metadata :: "(string \<times> string) list"

record Status =
  Code :: int
  Message :: string

record DiscoveryRequest =
  ReqNode :: "Node option"
  ReqTypeUrl :: string
  ReqVersionInfo :: string
  ResponseNonce :: string
  ReqResourceNames :: "string list"
  ErrorDetail :: "Status option"

record DiscoveryResponse =
  RespTypeUrl :: string
  RespVersionInfo :: string
  Nonce :: string
  Resources :: "string list"

text \<open>
  Modelled from the spec: the declarations of \<^verbatim>\<open>model.WatchedResource\<close> and \<^verbatim>\<open>model.Proxy\<close>
  are not part of the sources at hand. A watched resource has the attributes the spec
  lists, which are the fields that \<^verbatim>\<open>xds.go\<close> reads and writes; of a proxy, its id and its
  table of watched resources are kept.
\<close>

record WatchedResource =
  TypeUrl :: string
  ResourceNames :: "string list"
  VersionSent :: string
  NonceSent :: string
  VersionAcked :: string
  NonceAcked :: string
  NonceNacked :: string
  LastSent :: nat
  LastSize :: int
  LastRequest :: "DiscoveryRequest option"

record Proxy =
  ID :: string
  WatchedResources :: "string \<rightharpoonup> WatchedResource"

text \<open>
  \<^verbatim>\<open>&model.WatchedResource{TypeUrl: request.TypeUrl, ResourceNames: request.ResourceNames,
  LastRequest: request}\<close>: every other field has its zero value.
\<close>

definition newWatchedResource :: "DiscoveryRequest \<Rightarrow> WatchedResource" where
  "newWatchedResource request =
     \<lparr>TypeUrl = ReqTypeUrl request, ResourceNames = ReqResourceNames request,
      VersionSent = '''', NonceSent = '''', VersionAcked = '''', NonceAcked = '''',
      NonceNacked = '''', LastSent = 0, LastSize = 0, LastRequest = Some request\<rparr>"

section \<open>The request state machine\<close>

definition isWildcardTypeURL :: "v3_types \<Rightarrow> string \<Rightarrow> bool" where
  "isWildcardTypeURL v3 typeURL = (if typeURL = SecretType v3 then False else True)"

definition shouldUnsubscribe :: "v3_types \<Rightarrow> DiscoveryRequest \<Rightarrow> bool" where
  "shouldUnsubscribe v3 request =
     (length (ReqResourceNames request) = 0 \<and> \<not> isWildcardTypeURL v3 (ReqTypeUrl request))"

text \<open>
  \<^verbatim>\<open>listEqualUnordered\<close>: the first loop collects the elements of \<open>a\<close> as the keys of a
  map, the second returns false at the first element of \<open>b\<close> that is not a key.
\<close>

fun collectKeys :: "string list \<Rightarrow> string set \<Rightarrow> string set" where
  "collectKeys [] first = first"
| "collectKeys (c # cs) first = collectKeys cs (insert c first)"

fun allFound :: "string set \<Rightarrow> string list \<Rightarrow> bool" where
  "allFound first [] = True"
| "allFound first (c # cs) = (if c \<notin> first then False else allFound first cs)"

definition listEqualUnordered :: "string list \<Rightarrow> string list \<Rightarrow> bool" where
  "listEqualUnordered a b =
     (if length a \<noteq> length b then False else allFound (collectKeys a {}) b)"

text \<open>
  \<^verbatim>\<open>shouldRespond\<close> returns whether to respond, together with the proxy after the writes
  to its watched-resource table. The branches are those of the source, in its order:
  NACK, unsubscribe, INIT, RECONNECT, stale nonce, ACK or resource change.
\<close>

definition shouldRespond :: "v3_types \<Rightarrow> Proxy \<Rightarrow> DiscoveryRequest \<Rightarrow> bool \<times> Proxy" where
  "shouldRespond v3 proxy request =
     (let tp = ReqTypeUrl request; wrs = WatchedResources proxy in
      if ErrorDetail request \<noteq> None then
        (case wrs tp of
           Some w \<Rightarrow>
             (False, proxy\<lparr>WatchedResources := wrs(tp \<mapsto> w\<lparr>NonceNacked := ResponseNonce request\<rparr>)\<rparr>)
         | None \<Rightarrow> (False, proxy))
      else if shouldUnsubscribe v3 request then
        (False, proxy\<lparr>WatchedResources := wrs(tp := None)\<rparr>)
      else if ResponseNonce request = '''' then
        (True, proxy\<lparr>WatchedResources := wrs(tp \<mapsto> newWatchedResource request)\<rparr>)
      else
        (case wrs tp of
           None \<Rightarrow> (True, proxy\<lparr>WatchedResources := wrs(tp \<mapsto> newWatchedResource request)\<rparr>)
         | Some previousInfo \<Rightarrow>
             if ResponseNonce request \<noteq> NonceSent previousInfo then
               (False, proxy\<lparr>WatchedResources :=
                  wrs(tp \<mapsto> previousInfo\<lparr>NonceNacked := '''', LastRequest := Some request\<rparr>)\<rparr>)
             else
               (let previousResources = ResourceNames previousInfo;
                    proxy' = proxy\<lparr>WatchedResources :=
                      wrs(tp \<mapsto> previousInfo\<lparr>VersionAcked := ReqVersionInfo request,
                                              NonceAcked := ResponseNonce request,
                                              NonceNacked := '''',
                                              ResourceNames := ReqResourceNames request,
                                              LastRequest := Some request\<rparr>)\<rparr>
                in if listEqualUnordered previousResources (ReqResourceNames request)
                   then (False, proxy')
                   else (True, proxy'))))"


section \<open>Push requests\<close>

text \<open>
  \<^verbatim>\<open>TriggerReason\<close> is a string type; the two reasons the source names are constructors
  of their own. \<^verbatim>\<open>ReasonStats\<close> is a Go map from reason to count
  (\<^verbatim>\<open>make(map[TriggerReason]int)\<close>), \<^verbatim>\<open>sets.Set[ConfigKey]\<close> a Go map used as a set; either
  may be nil, which is \<open>None\<close> here. The test \<^verbatim>\<open>len(m) == 0\<close> holds of a nil map and of
  an empty one.
\<close>

datatype TriggerReason = ProxyRequest | ProxyUpdate | OtherReason string

type_synonym ReasonStats = "(TriggerReason \<rightharpoonup> int) option"

text \<open>
  Modelled from the spec: the declarations of \<^verbatim>\<open>ConfigKey\<close>, \<^verbatim>\<open>ResourceDelta\<close> and
  \<^verbatim>\<open>PushContext\<close> and the operations of \<^verbatim>\<open>sets.Set\<close> are not part of the sources at hand.
  A config key names one configuration object, a delta is the optional subscription
  change of a request, a push context is the snapshot whose \<^verbatim>\<open>PushVersion\<close> serves as
  version and nonce; \<^verbatim>\<open>Insert\<close> adds an element to a set and \<^verbatim>\<open>Merge\<close> all elements of
  another set, so that either side's elements make the union.
\<close>

datatype ConfigKey = ConfigKey (Kind: nat) (Name: string) (Namespace: string)

record ResourceDelta =
  Subscribed :: "string set"
  Unsubscribed :: "string set"

definition noDelta :: ResourceDelta where
  "noDelta = \<lparr>Subscribed = {}, Unsubscribed = {}\<rparr>"

record PushContext =
  PushVersion :: string

record PushRequest =
  Full :: bool
  ConfigsUpdated :: "ConfigKey set option"
  Push :: "PushContext option"
  Start :: nat
  Reason :: ReasonStats
  Delta :: ResourceDelta

definition lenReasonIsZero :: "ReasonStats \<Rightarrow> bool" where
  "lenReasonIsZero r = (case r of None \<Rightarrow> True | Some m \<Rightarrow> dom m = {})"

definition lenConfigsIsZero :: "ConfigKey set option \<Rightarrow> bool" where
  "lenConfigsIsZero cu = (case cu of None \<Rightarrow> True | Some s \<Rightarrow> s = {})"

text \<open>Reading a count, \<^verbatim>\<open>r[reason]\<close>: zero for a missing key and on a nil map.\<close>

definition reasonCount :: "ReasonStats \<Rightarrow> TriggerReason \<Rightarrow> int" where
  "reasonCount r reason =
     (case r of None \<Rightarrow> 0 | Some m \<Rightarrow> (case m reason of None \<Rightarrow> 0 | Some c \<Rightarrow> c))"

text \<open>
  Modelled from the spec: the method \<^verbatim>\<open>ReasonStats.Merge\<close> is not part of the sources at
  hand. The spec makes the merged reasons the multiset union of both sides, nothing
  deduplicated: every reason of \<open>other\<close> has its count added to the receiver's.
\<close>

definition ReasonStats_Merge :: "(TriggerReason \<rightharpoonup> int) \<Rightarrow> ReasonStats \<Rightarrow> (TriggerReason \<rightharpoonup> int)" where
  "ReasonStats_Merge r other =
     (case other of
        None \<Rightarrow> r
      | Some m \<Rightarrow>
          (\<lambda>reason. case m reason of
                       None \<Rightarrow> r reason
                     | Some cnt \<Rightarrow> Some (reasonCount (Some r) reason + cnt)))"

text \<open>
  \<^verbatim>\<open>PushRequest.Merge\<close> updates the receiver in place and returns it; the model returns
  the updated record. A nil receiver or argument is \<open>None\<close>. The requests merged are
  values: they share no map, and none is used again once it has been merged, as the
  source asks of its callers.
\<close>

definition Merge :: "PushRequest option \<Rightarrow> PushRequest option \<Rightarrow> PushRequest option" where
  "Merge pr other =
     (case pr of
        None \<Rightarrow> other
      | Some a \<Rightarrow>
          (case other of
             None \<Rightarrow> Some a
           | Some b \<Rightarrow>
               Some (a\<lparr>Reason :=
                          (if \<not> lenReasonIsZero (Reason b)
                           then Some (ReasonStats_Merge
                                  (case Reason a of None \<Rightarrow> Map.empty | Some m \<Rightarrow> m) (Reason b))
                           else Reason a),
                        Full := (Full a \<or> Full b),
                        Push := (if Push b \<noteq> None then Push b else Push a),
                        ConfigsUpdated :=
                          (if lenConfigsIsZero (ConfigsUpdated a) \<or> lenConfigsIsZero (ConfigsUpdated b)
                           then None
                           else Some (the (ConfigsUpdated a) \<union> the (ConfigsUpdated b)))\<rparr>)))"

text \<open>\<^verbatim>\<open>PushRequest.CopyMerge\<close> builds a new request and leaves both inputs alone.\<close>

definition CopyMerge :: "PushRequest option \<Rightarrow> PushRequest option \<Rightarrow> PushRequest option" where
  "CopyMerge pr other =
     (case pr of
        None \<Rightarrow> other
      | Some a \<Rightarrow>
          (case other of
             None \<Rightarrow> Some a
           | Some b \<Rightarrow>
               (let reason =
                      (if \<not> (lenReasonIsZero (Reason a) \<and> lenReasonIsZero (Reason b))
                       then Some (ReasonStats_Merge (ReasonStats_Merge Map.empty (Reason a)) (Reason b))
                       else None);
                    merged = \<lparr>Full = (Full a \<or> Full b), ConfigsUpdated = None, Push = Push b,
                              Start = Start a, Reason = reason, Delta = noDelta\<rparr>
                in Some
                     (if \<not> lenConfigsIsZero (ConfigsUpdated a) \<and> \<not> lenConfigsIsZero (ConfigsUpdated b)
                      then merged\<lparr>ConfigsUpdated :=
                             Some (({} \<union> the (ConfigsUpdated a)) \<union> the (ConfigsUpdated b))\<rparr>
                      else merged))))"

section \<open>Generators, the server and its collaborators\<close>

text \<open>
  A generator computes the resources of one type for one proxy:
  \<^verbatim>\<open>Generate(proxy, push, w, req)\<close> returns the resources (nil for "nothing to send"),
  a log detail and an error. A resource is kept as its marshalled bytes, which is all
  that \<^verbatim>\<open>model.ResourcesToAny\<close> and the size count of \<^verbatim>\<open>send\<close> look at. Generators are
  taken to leave the proxy unchanged.
\<close>

type_synonym XdsResourceGenerator =
  "Proxy \<Rightarrow> PushContext option \<Rightarrow> WatchedResource \<Rightarrow> PushRequest
     \<Rightarrow> string list option \<times> string \<times> error option"

record GenericXdsServer =
  Generators :: "string \<rightharpoonup> XdsResourceGenerator"
  ProxyNeedsPush :: "Proxy \<Rightarrow> PushRequest \<Rightarrow> bool"
  EnvPushContext :: "PushContext option"

text \<open>
  What the code obtains from outside itself: the \<^verbatim>\<open>v3\<close> constants, the clock
  (\<^verbatim>\<open>time.Now()\<close>), the outcome of writing a response to the stream
  (\<^verbatim>\<open>istiogrpc.Send\<close>, nil on success), the order in which a \<^verbatim>\<open>range\<close> loop visits the
  keys of a watched-resource table, the classification \<^verbatim>\<open>istiogrpc.IsExpectedGRPCError\<close>
  and the parsing of the node into a proxy (\<^verbatim>\<open>initProxyMetadata\<close>, which rests on
  \<^verbatim>\<open>model.ParseMetadata\<close> and \<^verbatim>\<open>model.ParseServiceNodeWithMetadata\<close>).
\<close>

record extern =
  v3types :: v3_types
  timeNow :: nat
  streamSend :: "DiscoveryResponse \<Rightarrow> error option"
  rangeOrder :: "(string \<rightharpoonup> WatchedResource) \<Rightarrow> string list"
  IsExpectedGRPCError :: "error \<Rightarrow> bool"
  initProxyMetadata :: "Node \<Rightarrow> error + Proxy"

text \<open>A call either returns or panics (a nil pointer is dereferenced).\<close>

datatype 'a result = Panic | Returns 'a

section \<open>Sending a response\<close>

fun sumSizes :: "string list \<Rightarrow> int \<Rightarrow> int" where
  "sumSizes [] sz = sz"
| "sumSizes (rc # rcs) sz = sumSizes rcs (sz + int (length rc))"

text \<open>
  \<^verbatim>\<open>Connection.send\<close>: on a successful write of a response with a non-empty nonce and a
  type-URL outside the debug prefix, the watched resource of that type-URL (created
  with only its \<^verbatim>\<open>TypeUrl\<close> when missing) records nonce, version, time and size.
\<close>

definition send :: "extern \<Rightarrow> Proxy \<Rightarrow> DiscoveryResponse \<Rightarrow> error option \<times> Proxy" where
  "send ext proxy res =
     (let err = streamSend ext res in
      if err = None then
        (let sz = sumSizes (Resources res) 0 in
         if Nonce res \<noteq> '''' \<and> \<not> prefix (DebugType (v3types ext)) (RespTypeUrl res) then
           (let wrs = WatchedResources proxy;
                w = (case wrs (RespTypeUrl res) of
                       None \<Rightarrow> \<lparr>TypeUrl = RespTypeUrl res, ResourceNames = [],
                                 VersionSent = '''', NonceSent = '''', VersionAcked = '''',
                                 NonceAcked = '''', NonceNacked = '''', LastSent = 0,
                                 LastSize = 0, LastRequest = None\<rparr>
                     | Some w0 \<Rightarrow> w0)
            in (err, proxy\<lparr>WatchedResources :=
                       wrs(RespTypeUrl res \<mapsto> w\<lparr>NonceSent := Nonce res,
                                                  VersionSent := RespVersionInfo res,
                                                  LastSent := timeNow ext,
                                                  LastSize := sz\<rparr>)\<rparr>))
         else (err, proxy))
      else (err, proxy))"

text \<open>\<^verbatim>\<open>Connection.Watched\<close>: the entry of the table, nil when there is none.\<close>

definition Watched :: "Proxy \<Rightarrow> string \<Rightarrow> WatchedResource option" where
  "Watched proxy typeUrl = WatchedResources proxy typeUrl"

text \<open>
  \<^verbatim>\<open>pushXds\<close>. The error it returns at its end is the variable bound by the call of
  \<^verbatim>\<open>Generate\<close>, which is nil there; the error of \<^verbatim>\<open>con.send\<close> is bound by the \<^verbatim>\<open>if\<close>
  statement only and is logged. Reading \<^verbatim>\<open>push.PushVersion\<close> panics on a nil \<open>push\<close>.
\<close>

definition pushXds ::
  "extern \<Rightarrow> GenericXdsServer \<Rightarrow> Proxy \<Rightarrow> PushContext option \<Rightarrow> WatchedResource option
     \<Rightarrow> PushRequest \<Rightarrow> (error option \<times> Proxy) result" where
  "pushXds ext s proxy push w req =
     (case w of
        None \<Rightarrow> Returns (None, proxy)
      | Some w \<Rightarrow>
          (case Generators s (TypeUrl w) of
             None \<Rightarrow> Returns (None, proxy)
           | Some gen \<Rightarrow>
               (case gen proxy push w req of
                  (res, logDetail, err) \<Rightarrow>
                    if err \<noteq> None \<or> res = None then Returns (err, proxy)
                    else
                      (case push of
                         None \<Rightarrow> Panic
                       | Some pc \<Rightarrow>
                           (let resp = \<lparr>RespTypeUrl = TypeUrl w,
                                        RespVersionInfo = PushVersion pc,
                                        Nonce = PushVersion pc,
                                        Resources = the res\<rparr>;
                                (sendErr, proxy') = send ext proxy resp
                            in Returns (err, proxy'))))))"

text \<open>
  \<^verbatim>\<open>processRequest\<close>: a request that is to be answered triggers a full push of its type,
  built from the server's current push context, with the one reason \<^verbatim>\<open>ProxyRequest\<close>.
  The source appends that reason to the reasons of a fresh request; among the counts of
  \<^verbatim>\<open>ReasonStats\<close> that is the count one.
\<close>

definition processRequest ::
  "extern \<Rightarrow> GenericXdsServer \<Rightarrow> Proxy \<Rightarrow> DiscoveryRequest \<Rightarrow> (error option \<times> Proxy) result" where
  "processRequest ext s proxy req =
     (case shouldRespond (v3types ext) proxy req of
        (respond, proxy1) \<Rightarrow>
          (let push = EnvPushContext s in
           if respond then
             (let request = \<lparr>Full = True, ConfigsUpdated = None, Push = push,
                             Start = timeNow ext, Reason = Some [ProxyRequest \<mapsto> 1],
                             Delta = noDelta\<rparr>
              in pushXds ext s proxy1 push (Watched proxy1 (ReqTypeUrl req)) request)
           else Returns (None, proxy1)))"

section \<open>Pushing to a connection\<close>

definition PushOrder :: "v3_types \<Rightarrow> string list" where
  "PushOrder v3 = [SecretType v3]"

definition KnownOrderedTypeUrls :: "v3_types \<Rightarrow> string set" where
  "KnownOrderedTypeUrls v3 = {SecretType v3}"

text \<open>
  \<^verbatim>\<open>orderWatchedResources\<close>. A pointer held in the table is given by its key together
  with the record it points to. The first loop runs over \<^verbatim>\<open>PushOrder\<close>, the second over
  the table in the order \<open>keys\<close> of the \<^verbatim>\<open>range\<close> statement.
\<close>

fun addKnown ::
  "(string \<rightharpoonup> WatchedResource) \<Rightarrow> string list \<Rightarrow> (string \<times> WatchedResource) list
     \<Rightarrow> (string \<times> WatchedResource) list" where
  "addKnown resources [] wr = wr"
| "addKnown resources (tp # tps) wr =
     (case resources tp of
        Some w \<Rightarrow> addKnown resources tps (wr @ [(tp, w)])
      | None \<Rightarrow> addKnown resources tps wr)"

fun addUndeclared ::
  "v3_types \<Rightarrow> (string \<rightharpoonup> WatchedResource) \<Rightarrow> string list \<Rightarrow> (string \<times> WatchedResource) list
     \<Rightarrow> (string \<times> WatchedResource) list" where
  "addUndeclared v3 resources [] wr = wr"
| "addUndeclared v3 resources (tp # tps) wr =
     (case resources tp of
        Some w \<Rightarrow>
          (if tp \<notin> KnownOrderedTypeUrls v3
           then addUndeclared v3 resources tps (wr @ [(tp, w)])
           else addUndeclared v3 resources tps wr)
      | None \<Rightarrow> addUndeclared v3 resources tps wr)"

definition orderWatchedResources ::
  "v3_types \<Rightarrow> string list \<Rightarrow> (string \<rightharpoonup> WatchedResource) \<Rightarrow> (string \<times> WatchedResource) list" where
  "orderWatchedResources v3 keys resources =
     addUndeclared v3 resources keys (addKnown resources (PushOrder v3) [])"

text \<open>
  The loop of \<^verbatim>\<open>pushConnection\<close>: each pointer of the ordered list is pushed in turn,
  read at the time of its push; the first error ends the loop.
\<close>

fun pushEach ::
  "extern \<Rightarrow> GenericXdsServer \<Rightarrow> Proxy \<Rightarrow> PushRequest \<Rightarrow> string list
     \<Rightarrow> (error option \<times> Proxy) result" where
  "pushEach ext s proxy pushRequest [] = Returns (None, proxy)"
| "pushEach ext s proxy pushRequest (tp # tps) =
     (case pushXds ext s proxy (Push pushRequest) (WatchedResources proxy tp) pushRequest of
        Panic \<Rightarrow> Panic
      | Returns (Some err, proxy') \<Rightarrow> Returns (Some err, proxy')
      | Returns (None, proxy') \<Rightarrow> pushEach ext s proxy' pushRequest tps)"

definition pushConnection ::
  "extern \<Rightarrow> GenericXdsServer \<Rightarrow> Proxy \<Rightarrow> PushRequest \<Rightarrow> (error option \<times> Proxy) result" where
  "pushConnection ext s proxy pushRequest =
     (if \<not> ProxyNeedsPush s proxy pushRequest then Returns (None, proxy)
      else pushEach ext s proxy pushRequest
             (map fst (orderWatchedResources (v3types ext)
                         (rangeOrder ext (WatchedResources proxy)) (WatchedResources proxy))))"

section \<open>The stream: receive task and main task\<close>

text \<open>
  \<^verbatim>\<open>initConnection\<close> parses the node and \<^verbatim>\<open>initializeProxy\<close> gives the proxy an empty
  watched-resource table; it then holds the proxy, and the server's registry holds the
  connection. \<^verbatim>\<open>initializeProxy\<close> has no failing path.
\<close>

definition initializeProxy :: "Proxy \<Rightarrow> Proxy" where
  "initializeProxy proxy = proxy\<lparr>WatchedResources := Map.empty\<rparr>"

definition initConnection :: "extern \<Rightarrow> Node \<Rightarrow> error + Proxy" where
  "initConnection ext node =
     (case initProxyMetadata ext node of
        Inl err \<Rightarrow> Inl err
      | Inr proxy \<Rightarrow> Inr (initializeProxy proxy))"

text \<open>
  What the receive task leaves behind when it returns: the error it wrote to
  \<^verbatim>\<open>errorChan\<close> before closing it (the channel takes one), the requests it handed to
  \<^verbatim>\<open>reqChan\<close> before closing it, and the proxy of the connection, nil unless
  \<^verbatim>\<open>initConnection\<close> has run.
\<close>

record received =
  errorChan :: "error option"
  reqChan :: "DiscoveryRequest list"
  conProxy :: "Proxy option"

definition handOver :: "DiscoveryRequest \<Rightarrow> received \<Rightarrow> received" where
  "handOver req r = r\<lparr>reqChan := req # reqChan r\<rparr>"

text \<open>
  \<^verbatim>\<open>receive\<close>. The stream is the list of requests that \<^verbatim>\<open>Recv\<close> yields, followed by the
  error \<open>final\<close> with which \<^verbatim>\<open>Recv\<close> ends. Each request comes with a flag: whether the
  stream's context is done when the request is to be handed over, in which case the
  task returns. \<open>firstRequest\<close> is the loop's variable of that name.
\<close>

fun receive ::
  "extern \<Rightarrow> bool \<Rightarrow> Proxy option \<Rightarrow> (DiscoveryRequest \<times> bool) list \<Rightarrow> error \<Rightarrow> received" where
  "receive ext firstRequest px [] final =
     \<lparr>errorChan = (if IsExpectedGRPCError ext final then None else Some final),
      reqChan = [], conProxy = px\<rparr>"
| "receive ext firstRequest px ((req, ctxDone) # rest) final =
     (if firstRequest then
        (if ReqTypeUrl req = HealthInfoType (v3types ext) then receive ext True px rest final
         else
           (case ReqNode req of
              None \<Rightarrow>
                \<lparr>errorChan = Some (StatusError InvalidArgument ''missing node information''),
                 reqChan = [], conProxy = px\<rparr>
            | Some node \<Rightarrow>
                if Id node = '''' then
                  \<lparr>errorChan = Some (StatusError InvalidArgument ''missing node information''),
                   reqChan = [], conProxy = px\<rparr>
                else
                  (case initConnection ext node of
                     Inl err \<Rightarrow> \<lparr>errorChan = Some err, reqChan = [], conProxy = px\<rparr>
                   | Inr proxy \<Rightarrow>
                       if ctxDone
                       then \<lparr>errorChan = None, reqChan = [], conProxy = Some proxy\<rparr>
                       else handOver req (receive ext False (Some proxy) rest final))))
      else
        (if ctxDone then \<lparr>errorChan = None, reqChan = [], conProxy = px\<rparr>
         else handOver req (receive ext False px rest final)))"

text \<open>
  The main task's \<^verbatim>\<open>select\<close> statement takes a request (or finds \<^verbatim>\<open>reqChan\<close> closed),
  takes a push or takes a stop; the schedule lists its choices, and when the schedule
  is used up only requests remain. A closed and drained \<^verbatim>\<open>reqChan\<close> ends the task with
  what \<^verbatim>\<open>errorChan\<close> holds. The proxy of the connection is dereferenced by the handling
  of a request or a push.
\<close>

datatype select = SelectRequest | SelectPush PushRequest | SelectStop

definition onRequest ::
  "extern \<Rightarrow> GenericXdsServer \<Rightarrow> Proxy option \<Rightarrow> DiscoveryRequest \<Rightarrow> (error option \<times> Proxy) result" where
  "onRequest ext s px req = (case px of None \<Rightarrow> Panic | Some proxy \<Rightarrow> processRequest ext s proxy req)"

definition onPush ::
  "extern \<Rightarrow> GenericXdsServer \<Rightarrow> Proxy option \<Rightarrow> PushRequest \<Rightarrow> (error option \<times> Proxy) result" where
  "onPush ext s px pushReq = (case px of None \<Rightarrow> Panic | Some proxy \<Rightarrow> pushConnection ext s proxy pushReq)"

fun mainLoop ::
  "extern \<Rightarrow> GenericXdsServer \<Rightarrow> DiscoveryRequest list \<Rightarrow> error option \<Rightarrow> Proxy option
     \<Rightarrow> select list \<Rightarrow> (error option \<times> Proxy option) result" where
  "mainLoop ext s [] errc px [] = Returns (errc, px)"
| "mainLoop ext s [] errc px (SelectRequest # sched) = Returns (errc, px)"
| "mainLoop ext s (req # q) errc px [] =
     (case onRequest ext s px req of
        Panic \<Rightarrow> Panic
      | Returns (Some err, proxy) \<Rightarrow> Returns (Some err, Some proxy)
      | Returns (None, proxy) \<Rightarrow> mainLoop ext s q errc (Some proxy) [])"
| "mainLoop ext s (req # q) errc px (SelectRequest # sched) =
     (case onRequest ext s px req of
        Panic \<Rightarrow> Panic
      | Returns (Some err, proxy) \<Rightarrow> Returns (Some err, Some proxy)
      | Returns (None, proxy) \<Rightarrow> mainLoop ext s q errc (Some proxy) sched)"
| "mainLoop ext s q errc px (SelectPush pushReq # sched) =
     (case onPush ext s px pushReq of
        Panic \<Rightarrow> Panic
      | Returns (Some err, proxy) \<Rightarrow> Returns (Some err, Some proxy)
      | Returns (None, proxy) \<Rightarrow> mainLoop ext s q errc (Some proxy) sched)"
| "mainLoop ext s q errc px (SelectStop # sched) = Returns (None, px)"

text \<open>
  \<^verbatim>\<open>Stream\<close> starts the receive task and runs the main task once the connection is
  initialized or the receive task has returned. Pushes and stops reach a connection
  through the server's registry, which holds it from \<^verbatim>\<open>initConnection\<close> on: a
  connection without a proxy is offered none.
\<close>

definition Stream ::
  "extern \<Rightarrow> GenericXdsServer \<Rightarrow> (DiscoveryRequest \<times> bool) list \<Rightarrow> error \<Rightarrow> select list
     \<Rightarrow> (error option \<times> Proxy option) result" where
  "Stream ext s stream final sched =
     (let r = receive ext True None stream final in
      mainLoop ext s (reqChan r) (errorChan r) (conProxy r)
        (if conProxy r = None then [] else sched))"

text \<open>
  \<^verbatim>\<open>DeltaAggregatedResources\<close> returns \<^verbatim>\<open>fmt.Errorf("delta ads is not supported")\<close>; the
  stream it was given is returned as it is left.
\<close>

definition DeltaAggregatedResources :: "GenericXdsServer \<Rightarrow> 'stream \<Rightarrow> error option \<times> 'stream" where
  "DeltaAggregatedResources s stream = (Some (PlainError ''delta ads is not supported''), stream)"

section \<open>Sample inputs\<close>

text \<open>Concrete values at which the theorems below are instantiated.\<close>

definition exampleTypes :: v3_types where
  "exampleTypes = \<lparr>SecretType = ''secret'', HealthInfoType = ''health'', DebugType = ''debug''\<rparr>"

definition exampleRequest :: "string \<Rightarrow> string \<Rightarrow> string list \<Rightarrow> DiscoveryRequest" where
  "exampleRequest tp nonce names =
     \<lparr>ReqNode = None, ReqTypeUrl = tp, ReqVersionInfo = nonce, ResponseNonce = nonce,
      ReqResourceNames = names, ErrorDetail = None\<rparr>"

definition exampleWatched :: "string \<Rightarrow> string \<Rightarrow> string list \<Rightarrow> WatchedResource" where
  "exampleWatched tp nonce names =
     \<lparr>TypeUrl = tp, ResourceNames = names, VersionSent = nonce, NonceSent = nonce,
      VersionAcked = '''', NonceAcked = '''', NonceNacked = '''', LastSent = 0, LastSize = 0,
      LastRequest = None\<rparr>"

definition exampleProxy :: "string \<Rightarrow> string \<Rightarrow> string list \<Rightarrow> Proxy" where
  "exampleProxy tp nonce names =
     \<lparr>ID = ''proxy-1'', WatchedResources = [tp \<mapsto> exampleWatched tp nonce names]\<rparr>"

definition exampleGenerator :: XdsResourceGenerator where
  "exampleGenerator proxy push w req = (Some [''resource''], ''detail'', None)"

definition exampleServer :: "PushContext option \<Rightarrow> GenericXdsServer" where
  "exampleServer push =
     \<lparr>Generators = [''T'' \<mapsto> exampleGenerator, ''secret'' \<mapsto> exampleGenerator],
      ProxyNeedsPush = (\<lambda>proxy req. True), EnvPushContext = push\<rparr>"

definition exampleExtern :: "error option \<Rightarrow> extern" where
  "exampleExtern sendResult =
     \<lparr>v3types = exampleTypes, timeNow = 7, streamSend = (\<lambda>res. sendResult),
      rangeOrder = (\<lambda>resources. filter (\<lambda>tp. resources tp \<noteq> None) [''T'', ''secret'', ''U'']),
      IsExpectedGRPCError = (\<lambda>err. False),
      initProxyMetadata = (\<lambda>node. Inr \<lparr>ID = Id node, WatchedResources = Map.empty\<rparr>)\<rparr>"

definition examplePushRequest :: "PushContext option \<Rightarrow> PushRequest" where
  "examplePushRequest push =
     \<lparr>Full = True, ConfigsUpdated = None, Push = push, Start = 1, Reason = None,
      Delta = noDelta\<rparr>"

section \<open>The table's invariant\<close>

text \<open>
  Every entry of a watched-resource table is stored under its own type-URL: the table
  starts empty and each entry is made with the key it is stored under.
\<close>

definition wellKeyed :: "Proxy \<Rightarrow> bool" where
  "wellKeyed proxy = (\<forall>tp w. WatchedResources proxy tp = Some w \<longrightarrow> TypeUrl w = tp)"

section \<open>Comparing resource names\<close>

lemma collectKeys_set: "collectKeys a first = set a \<union> first"
  by (induction a arbitrary: first) auto

lemma allFound_subset: "allFound first b = (set b \<subseteq> first)"
  by (induction b) auto

lemma listEqualUnordered_iff:
  "listEqualUnordered a b = (length a = length b \<and> set b \<subseteq> set a)"
  by (simp add: listEqualUnordered_def collectKeys_set allFound_subset)

lemma listEqualUnordered_mset:
  "mset a = mset b \<Longrightarrow> listEqualUnordered a b"
  unfolding listEqualUnordered_iff
  by (metis mset_eq_length mset_eq_setD subset_refl)

lemma listEqualUnordered_refl: "listEqualUnordered a a"
  by (simp add: listEqualUnordered_iff)

section \<open>Properties of the request state machine\<close>

text \<open>
  When a request carries no error detail, \<open>shouldRespond\<close> answers exactly when the
  request is no unsubscribe and either has an empty nonce, or finds no watched resource,
  or matches the nonce sent while \<open>listEqualUnordered\<close> tells its names from the stored
  ones.
\<close>

lemma shouldRespond_true_iff:
  "ErrorDetail request = None \<Longrightarrow>
   fst (shouldRespond v3 proxy request) =
     (\<not> shouldUnsubscribe v3 request \<and>
      (ResponseNonce request = '''' \<or>
       (case WatchedResources proxy (ReqTypeUrl request) of
          None \<Rightarrow> True
        | Some w \<Rightarrow> ResponseNonce request = NonceSent w \<and>
            \<not> listEqualUnordered (ResourceNames w) (ReqResourceNames request))))"
  by (auto simp: shouldRespond_def Let_def split: option.splits)

text \<open>
  C1. With no error detail, \<open>shouldRespond\<close> is to answer exactly on INIT, on RECONNECT
  and when the nonce matches while the requested names differ from the stored ones as
  multisets. The code at the names \<open>[a, a]\<close> requested against \<open>[a, b]\<close> stored, the
  nonce matching: the multisets differ, and \<open>shouldRespond\<close> returns false, since
  \<open>listEqualUnordered\<close> compares the lengths and looks every requested name up among the
  stored ones.
\<close>

theorem shouldRespond_duplicate_names:
  "ErrorDetail (exampleRequest ''T'' ''n1'' [''a'', ''a'']) = None \<and>
   \<not> shouldUnsubscribe exampleTypes (exampleRequest ''T'' ''n1'' [''a'', ''a'']) \<and>
   WatchedResources (exampleProxy ''T'' ''n1'' [''a'', ''b'']) ''T''
     = Some (exampleWatched ''T'' ''n1'' [''a'', ''b'']) \<and>
   ResponseNonce (exampleRequest ''T'' ''n1'' [''a'', ''a''])
     = NonceSent (exampleWatched ''T'' ''n1'' [''a'', ''b'']) \<and>
   mset (ReqResourceNames (exampleRequest ''T'' ''n1'' [''a'', ''a'']))
     \<noteq> mset (ResourceNames (exampleWatched ''T'' ''n1'' [''a'', ''b''])) \<and>
   fst (shouldRespond exampleTypes (exampleProxy ''T'' ''n1'' [''a'', ''b''])
          (exampleRequest ''T'' ''n1'' [''a'', ''a''])) = False"
  by (simp add: shouldRespond_def shouldUnsubscribe_def isWildcardTypeURL_def
      exampleRequest_def exampleProxy_def exampleWatched_def exampleTypes_def
      listEqualUnordered_def Let_def)

text \<open>
  C6. A request without error detail and with no resource names: for the secret type,
  the only type that is not a wildcard, it is an unsubscribe, the watched resource of
  its type-URL is deleted and \<open>shouldRespond\<close> returns false; for every other type-URL
  it is no unsubscribe and every watched resource of the table is still there afterwards.
\<close>

theorem shouldRespond_empty_names:
  "ErrorDetail request = None \<Longrightarrow> ReqResourceNames request = [] \<Longrightarrow>
   isWildcardTypeURL v3 (ReqTypeUrl request) = (ReqTypeUrl request \<noteq> SecretType v3) \<and>
   (if ReqTypeUrl request = SecretType v3
    then shouldUnsubscribe v3 request \<and>
         shouldRespond v3 proxy request =
           (False, proxy\<lparr>WatchedResources := (WatchedResources proxy)(ReqTypeUrl request := None)\<rparr>)
    else \<not> shouldUnsubscribe v3 request \<and>
         dom (WatchedResources proxy)
           \<subseteq> dom (WatchedResources (snd (shouldRespond v3 proxy request))))"
  by (auto simp: shouldRespond_def shouldUnsubscribe_def isWildcardTypeURL_def Let_def
      split: option.splits)

theorem shouldRespond_empty_names_witness:
  "shouldRespond exampleTypes (exampleProxy ''secret'' ''n1'' [''a''])
     (exampleRequest ''secret'' ''n1'' [])
     = (False, \<lparr>ID = ''proxy-1'', WatchedResources = Map.empty\<rparr>) \<and>
   \<not> shouldUnsubscribe exampleTypes (exampleRequest ''T'' ''n1'' []) \<and>
   ''T'' \<in> dom (WatchedResources (snd (shouldRespond exampleTypes
            (exampleProxy ''T'' ''n1'' [''a'']) (exampleRequest ''T'' ''n1'' []))))"
  using shouldRespond_empty_names [of "exampleRequest ''secret'' ''n1'' []" exampleTypes
          "exampleProxy ''secret'' ''n1'' [''a'']"]
        shouldRespond_empty_names [of "exampleRequest ''T'' ''n1'' []" exampleTypes
          "exampleProxy ''T'' ''n1'' [''a'']"]
  by (simp add: exampleRequest_def exampleProxy_def exampleTypes_def)

text \<open>
  C8, as the claim has it: on a watched resource with nonce sent \<open>n\<close>, a request without
  error detail, with response nonce \<open>n\<close> and the stored names, that is no unsubscribe,
  gets no response. At \<open>n\<close> the empty string the request is an INIT and gets one.
\<close>

theorem shouldRespond_ack_empty_nonce:
  "WatchedResources (exampleProxy ''T'' '''' [''a'']) ''T'' = Some (exampleWatched ''T'' '''' [''a'']) \<and>
   NonceSent (exampleWatched ''T'' '''' [''a'']) = ResponseNonce (exampleRequest ''T'' '''' [''a'']) \<and>
   ErrorDetail (exampleRequest ''T'' '''' [''a'']) = None \<and>
   mset (ReqResourceNames (exampleRequest ''T'' '''' [''a'']))
     = mset (ResourceNames (exampleWatched ''T'' '''' [''a''])) \<and>
   \<not> shouldUnsubscribe exampleTypes (exampleRequest ''T'' '''' [''a'']) \<and>
   fst (shouldRespond exampleTypes (exampleProxy ''T'' '''' [''a''])
          (exampleRequest ''T'' '''' [''a''])) = True"
  by (simp add: shouldRespond_def shouldUnsubscribe_def isWildcardTypeURL_def
      exampleRequest_def exampleProxy_def exampleWatched_def exampleTypes_def Let_def)

text \<open>
  C8, amended: on a watched resource whose nonce sent \<open>n\<close> is not empty, a request
  without error detail, with response nonce \<open>n\<close> and names equal to the stored ones as
  multisets, that is no unsubscribe, gets no response; the same request processed once
  more gets none either and leaves the proxy as the first processing left it.
\<close>

theorem shouldRespond_ack_twice:
  "WatchedResources proxy (ReqTypeUrl request) = Some w \<Longrightarrow>
   NonceSent w = ResponseNonce request \<Longrightarrow>
   ResponseNonce request \<noteq> '''' \<Longrightarrow>
   ErrorDetail request = None \<Longrightarrow>
   mset (ReqResourceNames request) = mset (ResourceNames w) \<Longrightarrow>
   \<not> shouldUnsubscribe v3 request \<Longrightarrow>
   fst (shouldRespond v3 proxy request) = False \<and>
   shouldRespond v3 (snd (shouldRespond v3 proxy request)) request
     = (False, snd (shouldRespond v3 proxy request))"
  using listEqualUnordered_mset[of "ResourceNames w" "ReqResourceNames request"]
  by (simp add: shouldRespond_def Let_def listEqualUnordered_refl)

theorem shouldRespond_ack_twice_witness:
  "fst (shouldRespond exampleTypes (exampleProxy ''T'' ''n1'' [''a'', ''b''])
          (exampleRequest ''T'' ''n1'' [''b'', ''a''])) = False \<and>
   shouldRespond exampleTypes
       (snd (shouldRespond exampleTypes (exampleProxy ''T'' ''n1'' [''a'', ''b''])
               (exampleRequest ''T'' ''n1'' [''b'', ''a''])))
       (exampleRequest ''T'' ''n1'' [''b'', ''a''])
     = (False, snd (shouldRespond exampleTypes (exampleProxy ''T'' ''n1'' [''a'', ''b''])
                      (exampleRequest ''T'' ''n1'' [''b'', ''a''])))"
  using shouldRespond_ack_twice [of "exampleProxy ''T'' ''n1'' [''a'', ''b'']"
          "exampleRequest ''T'' ''n1'' [''b'', ''a'']" "exampleWatched ''T'' ''n1'' [''a'', ''b'']"
          exampleTypes]
  by (simp add: exampleRequest_def exampleProxy_def exampleWatched_def exampleTypes_def
      shouldUnsubscribe_def isWildcardTypeURL_def)

section \<open>The merge of push requests\<close>

lemma lenReasonIsZero_iff:
  "lenReasonIsZero r = (r = None \<or> r = Some Map.empty)"
  by (auto simp: lenReasonIsZero_def split: option.splits)


lemma ReasonStats_Merge_zero:
  "lenReasonIsZero other \<Longrightarrow> ReasonStats_Merge r other = r"
  by (auto simp: lenReasonIsZero_iff ReasonStats_Merge_def)



lemma reasonCount_Merge:
  "reasonCount (Some (ReasonStats_Merge r other)) k = reasonCount (Some r) k + reasonCount other k"
  by (auto simp: ReasonStats_Merge_def reasonCount_def split: option.splits)

lemma reasonCount_zero: "lenReasonIsZero r \<Longrightarrow> reasonCount r k = 0"
  by (auto simp: lenReasonIsZero_iff reasonCount_def)

lemma reasonCount_receiver:
  "reasonCount (Some (case r of None \<Rightarrow> Map.empty | Some m \<Rightarrow> m)) k = reasonCount r k"
  by (simp add: reasonCount_def split: option.splits)









lemma Merge_Reason:
  "Reason (the (Merge (Some a) (Some b))) =
     (if lenReasonIsZero (Reason b) then Reason a
      else Some (ReasonStats_Merge (case Reason a of None \<Rightarrow> Map.empty | Some m \<Rightarrow> m) (Reason b)))"
  by (simp add: Merge_def)

lemma Merge_Reason_count:
  "reasonCount (Reason (the (Merge (Some a) (Some b)))) k
     = reasonCount (Reason a) k + reasonCount (Reason b) k"
  by (simp add: Merge_Reason reasonCount_Merge reasonCount_receiver reasonCount_zero)






text \<open>
  Where \<open>CopyMerge\<close> and \<open>Merge\<close> agree: on \<open>Full\<close>, \<open>Start\<close>, \<open>ConfigsUpdated\<close> and the
  count of every reason always, and on \<open>Push\<close> when that of the second request is not
  nil.
\<close>

lemma CopyMerge_Some: "CopyMerge (Some a) (Some b) = Some (the (CopyMerge (Some a) (Some b)))"
  by (simp add: CopyMerge_def Let_def)

lemma CopyMerge_Push: "Push (the (CopyMerge (Some a) (Some b))) = Push b"
  by (simp add: CopyMerge_def Let_def)

lemma CopyMerge_agrees:
  "Full (the (CopyMerge (Some a) (Some b))) = Full (the (Merge (Some a) (Some b)))"
  "Start (the (CopyMerge (Some a) (Some b))) = Start (the (Merge (Some a) (Some b)))"
  "ConfigsUpdated (the (CopyMerge (Some a) (Some b)))
     = ConfigsUpdated (the (Merge (Some a) (Some b)))"
  "Push b \<noteq> None \<Longrightarrow>
     Push (the (CopyMerge (Some a) (Some b))) = Push (the (Merge (Some a) (Some b)))"
  by (auto simp: CopyMerge_def Merge_def Let_def)

lemma CopyMerge_Reason_count:
  "reasonCount (Reason (the (CopyMerge (Some a) (Some b)))) k
     = reasonCount (Reason (the (Merge (Some a) (Some b)))) k"
proof -
  have "reasonCount (Reason (the (CopyMerge (Some a) (Some b)))) k
          = reasonCount (Reason a) k + reasonCount (Reason b) k"
    by (simp add: CopyMerge_def Let_def reasonCount_Merge reasonCount_zero)
       (simp add: reasonCount_def)
  then show ?thesis by (simp add: Merge_Reason_count)
qed

text \<open>
  C10. \<open>CopyMerge\<close> is to give the fields that \<open>Merge\<close> gives on copies of the same two
  requests, \<open>Push\<close> among them. The code at a first request with a push context and a
  second one without: \<open>Merge\<close> keeps the context of the first, \<open>CopyMerge\<close> takes the
  second's nil.
\<close>

theorem CopyMerge_drops_Push:
  "map_option Push (Merge (Some (examplePushRequest (Some \<lparr>PushVersion = ''v1''\<rparr>)))
                          (Some (examplePushRequest None)))
     = Some (Some \<lparr>PushVersion = ''v1''\<rparr>) \<and>
   map_option Push (CopyMerge (Some (examplePushRequest (Some \<lparr>PushVersion = ''v1''\<rparr>)))
                              (Some (examplePushRequest None)))
     = Some None"
  by (simp add: Merge_def CopyMerge_def examplePushRequest_def Let_def)

section \<open>The table's invariant is kept\<close>

lemma wellKeyed_initializeProxy: "wellKeyed (initializeProxy proxy)"
  by (simp add: wellKeyed_def initializeProxy_def)

lemma wellKeyed_shouldRespond:
  "wellKeyed proxy \<Longrightarrow> wellKeyed (snd (shouldRespond v3 proxy request))"
  by (auto simp: wellKeyed_def shouldRespond_def newWatchedResource_def Let_def
      split: option.splits if_splits)

lemma wellKeyed_send: "wellKeyed proxy \<Longrightarrow> wellKeyed (snd (send ext proxy res))"
  by (auto simp: wellKeyed_def send_def Let_def split: option.splits if_splits)

section \<open>Properties of send and pushXds\<close>

text \<open>What \<open>shouldRespond\<close> leaves in the table when it answers.\<close>

lemma shouldRespond_true_entry:
  assumes "shouldRespond v3 proxy request = (True, proxy1)"
  shows "\<exists>w. WatchedResources proxy1 (ReqTypeUrl request) = Some w \<and> NonceNacked w = '''' \<and>
             (WatchedResources proxy (ReqTypeUrl request) = None \<longrightarrow> TypeUrl w = ReqTypeUrl request) \<and>
             (\<forall>w0. WatchedResources proxy (ReqTypeUrl request) = Some w0 \<longrightarrow> TypeUrl w = TypeUrl w0
                     \<or> TypeUrl w = ReqTypeUrl request)"
  using assms
  by (auto simp: shouldRespond_def newWatchedResource_def Let_def split: option.splits if_splits)

lemma shouldRespond_true_typeurl:
  assumes "wellKeyed proxy" "shouldRespond v3 proxy request = (True, proxy1)"
  shows "\<exists>w. WatchedResources proxy1 (ReqTypeUrl request) = Some w \<and> NonceNacked w = '''' \<and>
             TypeUrl w = ReqTypeUrl request"
proof -
  from shouldRespond_true_entry[OF assms(2)] obtain w where
    w: "WatchedResources proxy1 (ReqTypeUrl request) = Some w" "NonceNacked w = ''''" by blast
  have "wellKeyed proxy1"
    using wellKeyed_shouldRespond[OF assms(1), of v3 request] assms(2) by simp
  with w have "TypeUrl w = ReqTypeUrl request" by (simp add: wellKeyed_def)
  with w show ?thesis by blast
qed

lemma send_success_entry:
  assumes "streamSend ext res = None" "Nonce res \<noteq> ''''"
    "\<not> prefix (DebugType (v3types ext)) (RespTypeUrl res)"
    "WatchedResources proxy (RespTypeUrl res) = Some w"
  shows "send ext proxy res =
           (None, proxy\<lparr>WatchedResources := (WatchedResources proxy)
              (RespTypeUrl res \<mapsto> w\<lparr>NonceSent := Nonce res, VersionSent := RespVersionInfo res,
                                     LastSent := timeNow ext,
                                     LastSize := sumSizes (Resources res) 0\<rparr>)\<rparr>)"
  using assms by (simp add: send_def Let_def)

lemma send_failure: "streamSend ext res = Some err \<Longrightarrow> send ext proxy res = (Some err, proxy)"
  by (simp add: send_def)

text \<open>
  C2, as the claim has it, at a push context whose version is the empty string: the
  names of the request differ from the stored ones under the matching nonce \<open>n1\<close>, so
  the request is answered; the response is written to the stream; and the nonce sent,
  which \<open>send\<close> records for a response with a non-empty nonce only, is \<open>n1\<close> still.
\<close>

theorem processRequest_empty_version:
  "fst (shouldRespond exampleTypes (exampleProxy ''T'' ''n1'' [''a''])
          (exampleRequest ''T'' ''n1'' [''a'', ''b''])) = True \<and>
   \<not> prefix (DebugType exampleTypes) ''T'' \<and>
   streamSend (exampleExtern None)
     \<lparr>RespTypeUrl = ''T'', RespVersionInfo = '''', Nonce = '''', Resources = [''resource'']\<rparr> = None \<and>
   (case processRequest (exampleExtern None) (exampleServer (Some \<lparr>PushVersion = ''''\<rparr>))
           (exampleProxy ''T'' ''n1'' [''a'']) (exampleRequest ''T'' ''n1'' [''a'', ''b'']) of
      Panic \<Rightarrow> False
    | Returns (err, proxy2) \<Rightarrow>
        err = None \<and> map_option NonceSent (WatchedResources proxy2 ''T'') = Some ''n1'') \<and>
   ''n1'' \<noteq> PushVersion \<lparr>PushVersion = ''''\<rparr>"
  by (simp add: processRequest_def shouldRespond_def shouldUnsubscribe_def isWildcardTypeURL_def
      listEqualUnordered_def pushXds_def send_def Watched_def Let_def
      exampleRequest_def exampleProxy_def exampleWatched_def exampleTypes_def
      exampleServer_def exampleExtern_def exampleGenerator_def)

text \<open>
  C2, amended: the table is keyed by type-URL, the state machine answers a request,
  and \<open>pushXds\<close> for the watched resource of the request's type-URL gets resources from
  the generator and writes its response to the stream, the type-URL being outside the
  debug prefix and the version of the push context not empty. Then the watched resource
  of that type-URL has the version of the push context as nonce sent and as version
  sent, and its nacked nonce is empty.
\<close>

theorem pushXds_bookkeeping:
  assumes "wellKeyed proxy"
    and "shouldRespond (v3types ext) proxy request = (True, proxy1)"
    and "Generators s (ReqTypeUrl request) = Some gen"
    and "gen proxy1 (Some pc) (the (Watched proxy1 (ReqTypeUrl request))) req
           = (Some res, detail, None)"
    and "streamSend ext \<lparr>RespTypeUrl = ReqTypeUrl request, RespVersionInfo = PushVersion pc,
                         Nonce = PushVersion pc, Resources = res\<rparr> = None"
    and "\<not> prefix (DebugType (v3types ext)) (ReqTypeUrl request)"
    and "PushVersion pc \<noteq> ''''"
  shows "\<exists>proxy2 w2.
           pushXds ext s proxy1 (Some pc) (Watched proxy1 (ReqTypeUrl request)) req
             = Returns (None, proxy2) \<and>
           WatchedResources proxy2 (ReqTypeUrl request) = Some w2 \<and>
           NonceSent w2 = PushVersion pc \<and> VersionSent w2 = PushVersion pc \<and>
           NonceNacked w2 = ''''"
proof -
  from shouldRespond_true_typeurl[OF assms(1,2)] obtain w where
    w: "WatchedResources proxy1 (ReqTypeUrl request) = Some w" "NonceNacked w = ''''"
       "TypeUrl w = ReqTypeUrl request" by blast
  let ?resp = "\<lparr>RespTypeUrl = ReqTypeUrl request, RespVersionInfo = PushVersion pc,
                 Nonce = PushVersion pc, Resources = res\<rparr>"
  let ?w2 = "w\<lparr>NonceSent := PushVersion pc, VersionSent := PushVersion pc,
               LastSent := timeNow ext, LastSize := sumSizes res 0\<rparr>"
  let ?proxy2 = "proxy1\<lparr>WatchedResources := (WatchedResources proxy1)(ReqTypeUrl request \<mapsto> ?w2)\<rparr>"
  have snd: "send ext proxy1 ?resp = (None, ?proxy2)"
    using send_success_entry[of ext ?resp proxy1 w] assms(5,6,7) w(1) by simp
  have gen: "gen proxy1 (Some pc) w req = (Some res, detail, None)"
    using assms(4) w(1) by (simp add: Watched_def)
  have "pushXds ext s proxy1 (Some pc) (Watched proxy1 (ReqTypeUrl request)) req
          = Returns (None, ?proxy2)"
    using w(1,3) assms(3) gen snd by (simp add: pushXds_def Watched_def)
  moreover have "WatchedResources ?proxy2 (ReqTypeUrl request) = Some ?w2" by simp
  moreover have "NonceSent ?w2 = PushVersion pc" "VersionSent ?w2 = PushVersion pc"
    "NonceNacked ?w2 = ''''" using w(2) by simp_all
  ultimately show ?thesis by blast
qed

theorem pushXds_bookkeeping_witness:
  "\<exists>proxy2 w2.
     pushXds (exampleExtern None) (exampleServer (Some \<lparr>PushVersion = ''v2''\<rparr>))
        (snd (shouldRespond exampleTypes (exampleProxy ''T'' ''n1'' [''a''])
                (exampleRequest ''T'' ''n1'' [''a'', ''b''])))
        (Some \<lparr>PushVersion = ''v2''\<rparr>)
        (Watched (snd (shouldRespond exampleTypes (exampleProxy ''T'' ''n1'' [''a''])
                         (exampleRequest ''T'' ''n1'' [''a'', ''b'']))) ''T'')
        (examplePushRequest (Some \<lparr>PushVersion = ''v2''\<rparr>))
       = Returns (None, proxy2) \<and>
     WatchedResources proxy2 ''T'' = Some w2 \<and>
     NonceSent w2 = ''v2'' \<and> VersionSent w2 = ''v2'' \<and> NonceNacked w2 = ''''"
proof -
  let ?P = "exampleProxy ''T'' ''n1'' [''a'']"
  let ?R = "exampleRequest ''T'' ''n1'' [''a'', ''b'']"
  let ?pc = "\<lparr>PushVersion = ''v2''\<rparr>"
  have h1: "wellKeyed ?P"
    by (simp add: wellKeyed_def exampleProxy_def exampleWatched_def)
  have fst: "fst (shouldRespond exampleTypes ?P ?R) = True"
    by (simp add: shouldRespond_def shouldUnsubscribe_def isWildcardTypeURL_def
        listEqualUnordered_def Let_def exampleRequest_def exampleProxy_def exampleWatched_def
        exampleTypes_def)
  have h2: "shouldRespond (v3types (exampleExtern None)) ?P ?R
              = (True, snd (shouldRespond exampleTypes ?P ?R))"
    using fst by (simp add: exampleExtern_def prod_eq_iff)
  have h3: "Generators (exampleServer (Some ?pc)) (ReqTypeUrl ?R) = Some exampleGenerator"
    by (simp add: exampleServer_def exampleRequest_def)
  have h4: "exampleGenerator (snd (shouldRespond exampleTypes ?P ?R)) (Some ?pc)
              (the (Watched (snd (shouldRespond exampleTypes ?P ?R)) (ReqTypeUrl ?R)))
              (examplePushRequest (Some ?pc)) = (Some [''resource''], ''detail'', None)"
    by (simp add: exampleGenerator_def)
  have h5: "streamSend (exampleExtern None)
              \<lparr>RespTypeUrl = ReqTypeUrl ?R, RespVersionInfo = PushVersion ?pc,
               Nonce = PushVersion ?pc, Resources = [''resource'']\<rparr> = None"
    by (simp add: exampleExtern_def)
  have h6: "\<not> prefix (DebugType (v3types (exampleExtern None))) (ReqTypeUrl ?R)"
    by (simp add: exampleExtern_def exampleTypes_def exampleRequest_def)
  have h7: "PushVersion ?pc \<noteq> ''''" by simp
  from pushXds_bookkeeping[OF h1 h2 h3 h4 h5 h6 h7] show ?thesis
    by (simp add: exampleRequest_def)
qed

text \<open>
  C9. \<open>pushXds\<close> returns no error when there is no watched resource, when no generator
  is registered for its type-URL, and when the generator returns neither resources nor
  an error; when the write of the response fails, with a deadline exceeded or any other
  error, it returns no error either and leaves the proxy as it was. An error that
  \<open>pushXds\<close> returns is the one its generator returned.
\<close>

theorem pushXds_errors:
  "pushXds ext s proxy push None req = Returns (None, proxy) \<and>
   (Generators s (TypeUrl w) = None \<longrightarrow>
      pushXds ext s proxy push (Some w) req = Returns (None, proxy)) \<and>
   (Generators s (TypeUrl w) = Some gen \<longrightarrow> gen proxy push w req = (None, detail, None) \<longrightarrow>
      pushXds ext s proxy push (Some w) req = Returns (None, proxy)) \<and>
   (Generators s (TypeUrl w) = Some gen \<longrightarrow> gen proxy push w req = (Some res, detail, None) \<longrightarrow>
    push = Some pc \<longrightarrow>
    streamSend ext \<lparr>RespTypeUrl = TypeUrl w, RespVersionInfo = PushVersion pc,
                     Nonce = PushVersion pc, Resources = res\<rparr> = Some sendErr \<longrightarrow>
      pushXds ext s proxy push (Some w) req = Returns (None, proxy)) \<and>
   (pushXds ext s proxy push w' req = Returns (Some err, proxy') \<longrightarrow>
      (\<exists>w0 gen0. w' = Some w0 \<and> Generators s (TypeUrl w0) = Some gen0 \<and>
                 snd (snd (gen0 proxy push w0 req)) = Some err))"
proof (intro conjI impI)
  show "pushXds ext s proxy push None req = Returns (None, proxy)"
    by (simp add: pushXds_def)
  show "Generators s (TypeUrl w) = None \<Longrightarrow>
        pushXds ext s proxy push (Some w) req = Returns (None, proxy)"
    by (simp add: pushXds_def)
  show "Generators s (TypeUrl w) = Some gen \<Longrightarrow> gen proxy push w req = (None, detail, None) \<Longrightarrow>
        pushXds ext s proxy push (Some w) req = Returns (None, proxy)"
    by (simp add: pushXds_def)
  show "Generators s (TypeUrl w) = Some gen \<Longrightarrow> gen proxy push w req = (Some res, detail, None) \<Longrightarrow>
        push = Some pc \<Longrightarrow>
        streamSend ext \<lparr>RespTypeUrl = TypeUrl w, RespVersionInfo = PushVersion pc,
                         Nonce = PushVersion pc, Resources = res\<rparr> = Some sendErr \<Longrightarrow>
        pushXds ext s proxy push (Some w) req = Returns (None, proxy)"
    by (simp add: pushXds_def send_failure)
  show "pushXds ext s proxy push w' req = Returns (Some err, proxy') \<Longrightarrow>
        \<exists>w0 gen0. w' = Some w0 \<and> Generators s (TypeUrl w0) = Some gen0 \<and>
                   snd (snd (gen0 proxy push w0 req)) = Some err"
    by (auto simp: pushXds_def Let_def split: option.splits prod.splits if_splits)
qed

theorem pushXds_errors_witness:
  "pushXds (exampleExtern (Some (StatusError DeadlineExceeded ''timeout'')))
      (exampleServer None) (exampleProxy ''T'' ''n1'' [''a'']) (Some \<lparr>PushVersion = ''v2''\<rparr>)
      (Some (exampleWatched ''U'' ''n1'' [''a''])) (examplePushRequest None)
     = Returns (None, exampleProxy ''T'' ''n1'' [''a'']) \<and>
   pushXds (exampleExtern (Some (StatusError DeadlineExceeded ''timeout'')))
      (exampleServer None) (exampleProxy ''T'' ''n1'' [''a'']) (Some \<lparr>PushVersion = ''v2''\<rparr>)
      (Some (exampleWatched ''T'' ''n1'' [''a''])) (examplePushRequest None)
     = Returns (None, exampleProxy ''T'' ''n1'' [''a''])"
  using pushXds_errors [of "exampleExtern (Some (StatusError DeadlineExceeded ''timeout''))"
          "exampleServer None" "exampleProxy ''T'' ''n1'' [''a'']" "Some \<lparr>PushVersion = ''v2''\<rparr>"
          "examplePushRequest None" "exampleWatched ''U'' ''n1'' [''a'']"]
        pushXds_errors [of "exampleExtern (Some (StatusError DeadlineExceeded ''timeout''))"
          "exampleServer None" "exampleProxy ''T'' ''n1'' [''a'']" "Some \<lparr>PushVersion = ''v2''\<rparr>"
          "examplePushRequest None" "exampleWatched ''T'' ''n1'' [''a'']" exampleGenerator
          "''detail''" "[''resource'']" "\<lparr>PushVersion = ''v2''\<rparr>"
          "StatusError DeadlineExceeded ''timeout''"]
  by (simp add: exampleServer_def exampleWatched_def exampleExtern_def exampleGenerator_def)

section \<open>The order of pushes\<close>

lemma addKnown_eq:
  "addKnown resources tps wr
     = wr @ map (\<lambda>tp. (tp, the (resources tp))) (filter (\<lambda>tp. tp \<in> dom resources) tps)"
  by (induction tps arbitrary: wr) (auto split: option.splits)

lemma addUndeclared_eq:
  "addUndeclared v3 resources tps wr
     = wr @ map (\<lambda>tp. (tp, the (resources tp)))
              (filter (\<lambda>tp. tp \<in> dom resources \<and> tp \<notin> KnownOrderedTypeUrls v3) tps)"
  by (induction tps arbitrary: wr) (auto split: option.splits)

lemma orderWatchedResources_eq:
  "orderWatchedResources v3 keys resources
     = map (\<lambda>tp. (tp, the (resources tp)))
         (filter (\<lambda>tp. tp \<in> dom resources) (PushOrder v3) @
          filter (\<lambda>tp. tp \<in> dom resources \<and> tp \<notin> KnownOrderedTypeUrls v3) keys)"
  by (simp add: orderWatchedResources_def addKnown_eq addUndeclared_eq)

lemma mset_known_first:
  assumes "distinct keys"
  shows "mset (filter (\<lambda>tp. tp \<in> set keys) [k]) + mset (filter (\<lambda>tp. tp \<noteq> k) keys) = mset keys"
proof (cases "k \<in> set keys")
  case True
  with assms have "filter (\<lambda>tp. tp = k) keys = [k]"
    by (induction keys) (auto simp: filter_empty_conv)
  then have "mset [k] + mset (filter (\<lambda>tp. tp \<noteq> k) keys)
               = mset (filter (\<lambda>tp. tp = k) keys) + mset (filter (\<lambda>tp. \<not> tp = k) keys)"
    by simp
  also have "\<dots> = mset keys"
    by (simp only: mset_filter multiset_partition[symmetric])
  finally show ?thesis using True by simp
next
  case False
  then have "filter (\<lambda>tp. tp \<noteq> k) keys = keys"
    by (auto simp: filter_id_conv)
  with False show ?thesis by simp
qed

text \<open>
  C7. For a table whose keys the \<^verbatim>\<open>range\<close> statement visits in the order \<open>keys\<close>, each
  once: the result lists the type-URLs of \<open>PushOrder\<close> that the table holds, in the order
  of \<open>PushOrder\<close>, and after them the keys outside \<open>KnownOrderedTypeUrls\<close> in the order of
  the visit; every key of the table occurs exactly once; and every entry of the result
  is the watched resource that the table holds under its key.
\<close>

theorem orderWatchedResources_order:
  assumes "distinct keys" and "set keys = dom resources"
  shows "map fst (orderWatchedResources v3 keys resources)
           = filter (\<lambda>tp. tp \<in> dom resources) (PushOrder v3) @
             filter (\<lambda>tp. tp \<notin> KnownOrderedTypeUrls v3) keys \<and>
         mset (map fst (orderWatchedResources v3 keys resources)) = mset keys \<and>
         (\<forall>e \<in> set (orderWatchedResources v3 keys resources). resources (fst e) = Some (snd e))"
proof -
  have keys: "filter (\<lambda>tp. tp \<in> dom resources \<and> tp \<notin> KnownOrderedTypeUrls v3) keys
                = filter (\<lambda>tp. tp \<notin> KnownOrderedTypeUrls v3) keys"
    using assms(2) by (auto intro: filter_cong)
  have first: "map fst (orderWatchedResources v3 keys resources)
                 = filter (\<lambda>tp. tp \<in> dom resources) (PushOrder v3) @
                   filter (\<lambda>tp. tp \<notin> KnownOrderedTypeUrls v3) keys"
    by (simp add: orderWatchedResources_eq keys comp_def)
  have "mset (filter (\<lambda>tp. tp \<in> dom resources) (PushOrder v3) @
              filter (\<lambda>tp. tp \<notin> KnownOrderedTypeUrls v3) keys) = mset keys"
    using mset_known_first[OF assms(1), of "SecretType v3"] assms(2)
    by (simp add: PushOrder_def KnownOrderedTypeUrls_def)
  with first have second: "mset (map fst (orderWatchedResources v3 keys resources)) = mset keys"
    by simp
  have "\<forall>e \<in> set (orderWatchedResources v3 keys resources). resources (fst e) = Some (snd e)"
    by (auto simp: orderWatchedResources_eq)
  with first second show ?thesis by blast
qed

theorem orderWatchedResources_order_witness:
  "map fst (orderWatchedResources exampleTypes [''T'', ''secret'', ''U'']
      [''T'' \<mapsto> exampleWatched ''T'' ''n1'' [], ''secret'' \<mapsto> exampleWatched ''secret'' ''n1'' [''a''],
       ''U'' \<mapsto> exampleWatched ''U'' ''n1'' []])
     = [''secret'', ''T'', ''U'']"
proof -
  let ?m = "[''T'' \<mapsto> exampleWatched ''T'' ''n1'' [],
             ''secret'' \<mapsto> exampleWatched ''secret'' ''n1'' [''a''],
             ''U'' \<mapsto> exampleWatched ''U'' ''n1'' []]"
  have d: "distinct [''T'', ''secret'', ''U'']" by simp
  have s: "set [''T'', ''secret'', ''U''] = dom ?m" by auto
  from orderWatchedResources_order[OF d s, of exampleTypes] show ?thesis
    by (simp add: PushOrder_def KnownOrderedTypeUrls_def exampleTypes_def)
qed

section \<open>The first request of a stream\<close>

lemma receive_probes:
  "\<forall>e \<in> set probes. ReqTypeUrl (fst e) = HealthInfoType (v3types ext) \<Longrightarrow>
   receive ext True px (probes @ stream) final = receive ext True px stream final"
  by (induction probes) auto

lemma receive_missing_node:
  assumes "ReqTypeUrl req \<noteq> HealthInfoType (v3types ext)"
    and "case ReqNode req of None \<Rightarrow> True | Some node \<Rightarrow> Id node = ''''"
  shows "receive ext True px ((req, ctxDone) # rest) final
           = \<lparr>errorChan = Some (StatusError InvalidArgument ''missing node information''),
              reqChan = [], conProxy = px\<rparr>"
  using assms by (simp split: option.splits)

text \<open>
  C4. Requests of the health-probe type at the head of a stream are passed over, and
  the requests after them are received as if they were the first ones. When the first
  request of another type has no node, or a node with an empty id, \<open>Stream\<close> returns a
  status error of code \<open>InvalidArgument\<close>.
\<close>

theorem Stream_first_request:
  assumes "\<forall>e \<in> set probes. ReqTypeUrl (fst e) = HealthInfoType (v3types ext)"
    and "ReqTypeUrl req \<noteq> HealthInfoType (v3types ext)"
    and "case ReqNode req of None \<Rightarrow> True | Some node \<Rightarrow> Id node = ''''"
  shows "receive ext True None (probes @ stream) final = receive ext True None stream final \<and>
         (\<exists>msg. Stream ext s (probes @ (req, ctxDone) # rest) final sched
                  = Returns (Some (StatusError InvalidArgument msg), None) \<and>
                status_Code (StatusError InvalidArgument msg) = InvalidArgument)"
proof -
  have "receive ext True None (probes @ (req, ctxDone) # rest) final
          = \<lparr>errorChan = Some (StatusError InvalidArgument ''missing node information''),
             reqChan = [], conProxy = None\<rparr>"
    using receive_probes[OF assms(1)] receive_missing_node[OF assms(2,3)] by simp
  then have "Stream ext s (probes @ (req, ctxDone) # rest) final sched
               = Returns (Some (StatusError InvalidArgument ''missing node information''), None)"
    by (simp add: Stream_def)
  then show ?thesis
    using receive_probes[OF assms(1)] by simp
qed

theorem Stream_first_request_witness:
  "Stream (exampleExtern None) (exampleServer None)
     [(exampleRequest ''health'' '''' [], False), (exampleRequest ''health'' '''' [], False),
      (exampleRequest ''T'' '''' [''a''], False), (exampleRequest ''T'' ''n1'' [''a''], False)]
     (PlainError ''EOF'') [SelectStop]
   = Returns (Some (StatusError InvalidArgument ''missing node information''), None)"
proof -
  let ?probes = "[(exampleRequest ''health'' '''' [], False), (exampleRequest ''health'' '''' [], False)]"
  have h1: "\<forall>e \<in> set ?probes. ReqTypeUrl (fst e) = HealthInfoType (v3types (exampleExtern None))"
    by (simp add: exampleRequest_def exampleExtern_def exampleTypes_def)
  have h2: "ReqTypeUrl (exampleRequest ''T'' '''' [''a'']) \<noteq> HealthInfoType (v3types (exampleExtern None))"
    by (simp add: exampleRequest_def exampleExtern_def exampleTypes_def)
  have h3: "case ReqNode (exampleRequest ''T'' '''' [''a'']) of None \<Rightarrow> True | Some node \<Rightarrow> Id node = ''''"
    by (simp add: exampleRequest_def)
  from Stream_first_request[OF h1 h2 h3, of "[]" "PlainError ''EOF''" "exampleServer None" False
         "[(exampleRequest ''T'' ''n1'' [''a''], False)]" "[SelectStop]"]
  show ?thesis
    by (simp add: Stream_def exampleRequest_def exampleExtern_def exampleTypes_def)
qed

section \<open>The delta entry point\<close>

text \<open>
  C5, as the claim has it: the error returned is to carry the status code
  \<open>Unimplemented\<close>. The error is a plain one, whose status code is \<open>Unknown\<close>.
\<close>

theorem DeltaAggregatedResources_code:
  "map_option status_Code (fst (DeltaAggregatedResources (exampleServer None) ()))
     \<noteq> Some Unimplemented"
  by (simp add: DeltaAggregatedResources_def)

text \<open>
  C5, amended: every call of \<open>DeltaAggregatedResources\<close> returns, with the stream as it
  was given, a plain error of message \<open>delta ads is not supported\<close>, which carries no
  gRPC status and so converts to the code \<open>Unknown\<close>.
\<close>

theorem DeltaAggregatedResources_error:
  "\<exists>err. DeltaAggregatedResources s stream = (Some err, stream) \<and>
         error_Message err = ''delta ads is not supported'' \<and>
         status_Code err = Unknown"
  by (simp add: DeltaAggregatedResources_def)

end
